theory Spec2Isabelle
  imports Complex_Main
begin

section \<open>Data model\<close>

text \<open>
  The prototype is one TypeScript file with two classes, \<^verbatim>\<open>Fighter\<close> and \<^verbatim>\<open>Game\<close>.
  A JavaScript \<^verbatim>\<open>number\<close> is modelled as a \<open>real\<close>: the finite values with exact
  arithmetic. Rounding, infinities and NaN are outside the model; every constant the code
  assigns (0, 1, -1, 80, 120, -250, 150, 600) is exact in both.

  An \<^verbatim>\<open>HTMLImageElement\<close> is read only through its \<^verbatim>\<open>width\<close> and \<^verbatim>\<open>height\<close>,
  which the platform gives as unsigned integers; \<open>src\<close> tells two images apart.
\<close>

record image =
  src :: string
  width :: nat
  height :: nat

text \<open>
  The fields of \<^verbatim>\<open>class Fighter\<close>. The coordinates \<^verbatim>\<open>x\<close> and \<^verbatim>\<open>y\<close> are named
  \<open>px\<close> and \<open>py\<close> here; \<open>facing\<close> is \<open>1\<close> for right and \<open>-1\<close> for left, as in the source.
\<close>

record Fighter =
  img :: image
  px :: real
  py :: real
  vx :: real
  vy :: real
  facing :: real
  onGround :: bool

text \<open>The constructor: \<^verbatim>\<open>new Fighter(img, x, y)\<close> with the field initialisers.\<close>

definition new_Fighter :: "image \<Rightarrow> real \<Rightarrow> real \<Rightarrow> Fighter" where
  "new_Fighter i x0 y0 =
     \<lparr>img = i, px = x0, py = y0, vx = 0, vy = 0, facing = 1, onGround = False\<rparr>"

section \<open>Fighter.update\<close>

text \<open>
  \<^verbatim>\<open>update(dt)\<close>: gravity on \<open>vy\<close>, then \<open>x\<close> and \<open>y\<close> integrated with the velocities
  as they are at that point, then the ground test at 150 on the bottom edge
  \<^verbatim>\<open>y + img.height * 2\<close>.
\<close>

definition Fighter_update :: "Fighter \<Rightarrow> real \<Rightarrow> Fighter" where
  "Fighter_update f dt =
     (let f1 = f\<lparr>vy := vy f + 600 * dt\<rparr>;
          f2 = f1\<lparr>px := px f1 + vx f1 * dt\<rparr>;
          f3 = f2\<lparr>py := py f2 + vy f2 * dt\<rparr>
      in if py f3 + real (height (img f3)) * 2 \<ge> 150
         then f3\<lparr>py := 150 - real (height (img f3)) * 2, vy := 0, onGround := True\<rparr>
         else f3\<lparr>onGround := False\<rparr>)"

section \<open>Fighter.draw on a canvas context\<close>

text \<open>
  What \<^verbatim>\<open>draw\<close> needs of a \<^verbatim>\<open>CanvasRenderingContext2D\<close>: the current transformation
  (the code only ever scales it, so a scale and a shift per axis: a user-space point
  \<open>(u, v)\<close> lands at \<open>(scale_x * u + shift_x, scale_y * v + shift_y)\<close>), the stack of
  \<^verbatim>\<open>save\<close>, and the images drawn so far. A drawn image is recorded by where the four
  edges of the source image land under the transformation current at the call.
\<close>

record transform =
  scale_x :: real
  shift_x :: real
  scale_y :: real
  shift_y :: real

record blit =
  source :: image
  left_at :: real
  right_at :: real
  top_at :: real
  bottom_at :: real

record canvas_ctx =
  ctm :: transform
  saved :: "transform list"
  drawn :: "blit list"

definition ctx_save :: "canvas_ctx \<Rightarrow> canvas_ctx" where
  "ctx_save c = c\<lparr>saved := ctm c # saved c\<rparr>"

definition ctx_restore :: "canvas_ctx \<Rightarrow> canvas_ctx" where
  "ctx_restore c = (case saved c of [] \<Rightarrow> c | t # ts \<Rightarrow> c\<lparr>ctm := t, saved := ts\<rparr>)"

definition ctx_scale :: "canvas_ctx \<Rightarrow> real \<Rightarrow> real \<Rightarrow> canvas_ctx" where
  "ctx_scale c kx ky =
     c\<lparr>ctm := (ctm c)\<lparr>scale_x := scale_x (ctm c) * kx, scale_y := scale_y (ctm c) * ky\<rparr>\<rparr>"

definition ctx_drawImage ::
  "canvas_ctx \<Rightarrow> image \<Rightarrow> real \<Rightarrow> real \<Rightarrow> real \<Rightarrow> real \<Rightarrow> canvas_ctx" where
  "ctx_drawImage c i dx dy dw dh =
     c\<lparr>drawn := drawn c @
        [\<lparr>source = i,
          left_at = scale_x (ctm c) * dx + shift_x (ctm c),
          right_at = scale_x (ctm c) * (dx + dw) + shift_x (ctm c),
          top_at = scale_y (ctm c) * dy + shift_y (ctm c),
          bottom_at = scale_y (ctm c) * (dy + dh) + shift_y (ctm c)\<rparr>]\<rparr>"

definition Fighter_draw :: "Fighter \<Rightarrow> canvas_ctx \<Rightarrow> canvas_ctx" where
  "Fighter_draw f c =
     (let c1 = ctx_save c;
          c2 = (if facing f < 0
                then ctx_drawImage (ctx_scale c1 (- 1) 1) (img f)
                       (- px f - real (width (img f)) * 2) (py f)
                       (real (width (img f)) * 2) (real (height (img f)) * 2)
                else ctx_drawImage c1 (img f) (px f) (py f)
                       (real (width (img f)) * 2) (real (height (img f)) * 2))
      in ctx_restore c2)"

section \<open>Game\<close>

text \<open>
  The fields of \<^verbatim>\<open>class Game\<close> that the simulation reads or writes. \<open>player\<close> and
  \<open>cpu\<close> are declared with \<^verbatim>\<open>!\<close> and stay undefined until the assets are loaded, so
  they are options here, as are the two image handles. \<open>keys\<close> is the
  \<^verbatim>\<open>Record<string, boolean>\<close>; a key code that was never seen is absent.
\<close>

datatype phase = Loading | Vs | Fight

record Game =
  bg :: "image option"
  fighterImg :: "image option"
  player :: "Fighter option"
  cpu :: "Fighter option"
  keys :: "string \<rightharpoonup> bool"
  state :: phase
  lastTime :: real

datatype error = TypeError

text \<open>The truthiness of \<^verbatim>\<open>this.keys[c]\<close>: absent and false are both falsy.\<close>

definition held :: "(string \<rightharpoonup> bool) \<Rightarrow> string \<Rightarrow> bool" where
  "held ks c = (ks c = Some True)"

text \<open>The two listeners registered by the constructor.\<close>

definition keydown :: "Game \<Rightarrow> string \<Rightarrow> Game" where
  "keydown g c =
     (let g1 = g\<lparr>keys := (keys g)(c \<mapsto> True)\<rparr>
      in if state g1 = Vs \<and> c = ''Space'' then g1\<lparr>state := Fight\<rparr> else g1)"

definition keyup :: "Game \<Rightarrow> string \<Rightarrow> Game" where
  "keyup g c = g\<lparr>keys := (keys g)(c \<mapsto> False)\<rparr>"

text \<open>
  The body of \<^verbatim>\<open>Game.update\<close> in the fight state, in the order of the source:
  the A/D mapping, the W jump rule, the player's own update, the CPU rule on the
  horizontal offset, the CPU's random jump, the CPU's own update. \<open>rnd\<close> is the value
  \<^verbatim>\<open>Math.random()\<close> returns in this frame.
\<close>

definition player_input :: "(string \<rightharpoonup> bool) \<Rightarrow> Fighter \<Rightarrow> Fighter" where
  "player_input ks p =
     (let p0 = p\<lparr>vx := 0\<rparr>
      in if held ks ''KeyA'' then p0\<lparr>vx := - 120, facing := - 1\<rparr>
         else if held ks ''KeyD'' then p0\<lparr>vx := 120, facing := 1\<rparr>
         else p0)"

definition player_jump :: "(string \<rightharpoonup> bool) \<Rightarrow> Fighter \<Rightarrow> Fighter" where
  "player_jump ks p = (if held ks ''KeyW'' \<and> onGround p then p\<lparr>vy := - 250\<rparr> else p)"

definition cpu_ai :: "Fighter \<Rightarrow> Fighter \<Rightarrow> Fighter" where
  "cpu_ai p c =
     (let dx = px p - px c;
          c1 = c\<lparr>vx := (if \<bar>dx\<bar> > 40 then (if dx > 0 then 80 else - 80) else 0)\<rparr>
      in c1\<lparr>facing := (if vx c1 \<ge> 0 then 1 else - 1)\<rparr>)"

definition cpu_jump :: "real \<Rightarrow> Fighter \<Rightarrow> Fighter" where
  "cpu_jump rnd c = (if onGround c \<and> rnd < 1 / 100 then c\<lparr>vy := - 250\<rparr> else c)"

text \<open>
  \<^verbatim>\<open>Game.update(dt)\<close>. Writing through an undefined \<^verbatim>\<open>this.player\<close> or reading through
  an undefined \<^verbatim>\<open>this.cpu\<close> throws a TypeError; the error carries the state as the
  throw leaves it.
\<close>

definition Game_update :: "Game \<Rightarrow> real \<Rightarrow> real \<Rightarrow> (error \<times> Game) + Game" where
  "Game_update g dt rnd =
     (if state g = Fight then
        (case player g of
           None \<Rightarrow> Inl (TypeError, g)
         | Some p \<Rightarrow>
             (let p1 = Fighter_update (player_jump (keys g) (player_input (keys g) p)) dt;
                  g1 = g\<lparr>player := Some p1\<rparr>
              in case cpu g1 of
                   None \<Rightarrow> Inl (TypeError, g1)
                 | Some c \<Rightarrow>
                     Inr (g1\<lparr>cpu := Some (Fighter_update (cpu_jump rnd (cpu_ai p1 c)) dt)\<rparr>)))
      else Inr g)"

text \<open>
  \<^verbatim>\<open>loop(timestamp)\<close>: dt in seconds from the previous timestamp, then \<^verbatim>\<open>update\<close>.
  The \<^verbatim>\<open>draw\<close> that follows paints the canvas and writes no field of the game.
\<close>

definition loop :: "Game \<Rightarrow> real \<Rightarrow> real \<Rightarrow> (error \<times> Game) + Game" where
  "loop g timestamp rnd =
     (let dt = (timestamp - lastTime g) / 1000;
          g1 = g\<lparr>lastTime := timestamp\<rparr>
      in Game_update g1 dt rnd)"

section \<open>The session as a sequence of events\<close>

text \<open>
  Everything runs on one thread, one callback at a time. A session is the game, the
  point at which the asynchronous \<^verbatim>\<open>loadAssets\<close> is suspended, and whether a frame
  callback is registered with \<^verbatim>\<open>requestAnimationFrame\<close>. The events are the callbacks
  the platform can run: a key going down or up, the pending image load resolving or
  failing, and an animation frame with its timestamp and the frame's random number.
\<close>

datatype load_pc = AwaitBg | AwaitSprite | LoadDone | LoadFailed

record session =
  game :: Game
  pc :: load_pc
  scheduled :: bool

datatype event =
    KeyDown string
  | KeyUp string
  | ImageLoaded image
  | ImageError
  | Frame real real

text \<open>
  \<^verbatim>\<open>new Game()\<close>: the field initialisers, the listeners, and \<^verbatim>\<open>loadAssets()\<close> run up
  to its first \<^verbatim>\<open>await\<close>.
\<close>

definition new_Game :: session where
  "new_Game =
     \<lparr>game = \<lparr>bg = None, fighterImg = None, player = None, cpu = None,
              keys = Map.empty, state = Loading, lastTime = 0\<rparr>,
      pc = AwaitBg, scheduled = False\<rparr>"

text \<open>
  \<^verbatim>\<open>loadAssets\<close> resumed with the image its pending \<^verbatim>\<open>await\<close> was waiting for. The second
  resumption runs to the end of the function: sprite handle, both fighters, the CPU's
  facing, the phase, and the first \<^verbatim>\<open>requestAnimationFrame\<close>.
\<close>

definition loadAssets_resume :: "session \<Rightarrow> image \<Rightarrow> session" where
  "loadAssets_resume s i =
     (case pc s of
        AwaitBg \<Rightarrow> s\<lparr>game := (game s)\<lparr>bg := Some i\<rparr>, pc := AwaitSprite\<rparr>
      | AwaitSprite \<Rightarrow>
          (let g1 = (game s)\<lparr>fighterImg := Some i\<rparr>;
               g2 = g1\<lparr>player := Some (new_Fighter i 60 50)\<rparr>;
               g3 = g2\<lparr>cpu := Some ((new_Fighter i 220 50)\<lparr>facing := - 1\<rparr>)\<rparr>;
               g4 = g3\<lparr>state := Vs\<rparr>
           in s\<lparr>game := g4, pc := LoadDone, scheduled := True\<rparr>)
      | LoadDone \<Rightarrow> s
      | LoadFailed \<Rightarrow> s)"

text \<open>A rejected load ends \<^verbatim>\<open>loadAssets\<close>; nothing observes the rejection.\<close>

definition loadAssets_reject :: "session \<Rightarrow> session" where
  "loadAssets_reject s =
     (case pc s of
        AwaitBg \<Rightarrow> s\<lparr>pc := LoadFailed\<rparr>
      | AwaitSprite \<Rightarrow> s\<lparr>pc := LoadFailed\<rparr>
      | LoadDone \<Rightarrow> s
      | LoadFailed \<Rightarrow> s)"

text \<open>
  One callback. A frame runs only if one is registered; \<^verbatim>\<open>loop\<close> registers the next one
  as its last statement, so a throw inside \<^verbatim>\<open>update\<close> ends the loop.
\<close>

fun step :: "session \<Rightarrow> event \<Rightarrow> session" where
  "step s (KeyDown c) = s\<lparr>game := keydown (game s) c\<rparr>"
| "step s (KeyUp c) = s\<lparr>game := keyup (game s) c\<rparr>"
| "step s (ImageLoaded i) = loadAssets_resume s i"
| "step s ImageError = loadAssets_reject s"
| "step s (Frame t rnd) =
     (if scheduled s
      then (case loop (game s) t rnd of
              Inl (e, g') \<Rightarrow> s\<lparr>game := g', scheduled := False\<rparr>
            | Inr g' \<Rightarrow> s\<lparr>game := g'\<rparr>)
      else s)"

fun run :: "session \<Rightarrow> event list \<Rightarrow> session" where
  "run s [] = s"
| "run s (e # es) = run (step s e) es"

text \<open>The number of steps of a run that take the phase from loading to ready.\<close>

fun ready_transitions :: "session \<Rightarrow> event list \<Rightarrow> nat" where
  "ready_transitions s [] = 0"
| "ready_transitions s (e # es) =
     (if state (game s) = Loading \<and> state (game (step s e)) = Vs then 1 else 0)
       + ready_transitions (step s e) es"

section \<open>Phases and invariants of a session\<close>

text \<open>The order of the phases: loading, then ready, then fight.\<close>

definition phase_rank :: "phase \<Rightarrow> nat" where
  "phase_rank ph = (case ph of Loading \<Rightarrow> 0 | Vs \<Rightarrow> 1 | Fight \<Rightarrow> 2)"

text \<open>
  The phase is loading exactly as long as \<^verbatim>\<open>loadAssets\<close> has not run to its end, and
  once it has, both fighters exist and carry the loaded sprite.
\<close>

definition load_inv :: "session \<Rightarrow> bool" where
  "load_inv s = ((state (game s) = Loading) = (pc s \<noteq> LoadDone))"

definition fighters_inv :: "session \<Rightarrow> bool" where
  "fighters_inv s =
     (pc s = LoadDone \<longrightarrow>
        (\<exists>p c. player (game s) = Some p \<and> cpu (game s) = Some c \<and> img p = img c \<and>
               fighterImg (game s) = Some (img p)))"

section \<open>Fixtures\<close>

text \<open>
  A 16 by 16 sprite, and the game as it stands right after the load and the confirm key
  when that sprite is the one loaded.
\<close>

definition sprite16 :: image where
  "sprite16 = \<lparr>src = ''pimentRougeIdle0'', width = 16, height = 16\<rparr>"

definition marketSky :: image where
  "marketSky = \<lparr>src = ''marketSky'', width = 320, height = 180\<rparr>"

definition fight_start :: Game where
  "fight_start =
     \<lparr>bg = Some marketSky,
      fighterImg = Some sprite16,
      player = Some (new_Fighter sprite16 60 50),
      cpu = Some ((new_Fighter sprite16 220 50)\<lparr>facing := - 1\<rparr>),
      keys = [''Space'' \<mapsto> True],
      state = Fight, lastTime = 0\<rparr>"

text \<open>The same game with both the left and the right key down.\<close>

definition both_held :: Game where
  "both_held =
     fight_start\<lparr>keys := [''Space'' \<mapsto> True, ''KeyA'' \<mapsto> True, ''KeyD'' \<mapsto> True]\<rparr>"

text \<open>The CPU at x = 0 and the player at a chosen x, no movement key down.\<close>

definition facing_off :: "real \<Rightarrow> Game" where
  "facing_off x0 =
     fight_start\<lparr>player := Some (new_Fighter sprite16 x0 50),
                 cpu := Some (new_Fighter sprite16 0 50)\<rparr>"

text \<open>The player standing on the ground line, or marked airborne, with the jump key down.\<close>

definition jump_pressed :: "bool \<Rightarrow> Game" where
  "jump_pressed grounded =
     fight_start\<lparr>player := Some ((new_Fighter sprite16 60 118)\<lparr>onGround := grounded\<rparr>),
                 keys := [''Space'' \<mapsto> False, ''KeyW'' \<mapsto> True]\<rparr>"

text \<open>A canvas context as \<^verbatim>\<open>getContext('2d')\<close> hands it out: identity transform, nothing drawn.\<close>

definition blank_canvas :: canvas_ctx where
  "blank_canvas =
     \<lparr>ctm = \<lparr>scale_x = 1, shift_x = 0, scale_y = 1, shift_y = 0\<rparr>, saved = [], drawn = []\<rparr>"

section \<open>Theorems about Fighter.update\<close>

lemma Fighter_update_keeps:
  "vx (Fighter_update f dt) = vx f"
  "facing (Fighter_update f dt) = facing f"
  "img (Fighter_update f dt) = img f"
  by (simp_all add: Fighter_update_def Let_def)

text \<open>
  C10. For every fighter and every dt, \<^verbatim>\<open>Fighter.update(dt)\<close> leaves the horizontal
  velocity, the facing and the sprite reference as they were.
\<close>

theorem Fighter_update_frame:
  "vx (Fighter_update f dt) = vx f \<and>
   facing (Fighter_update f dt) = facing f \<and>
   img (Fighter_update f dt) = img f"
  by (simp add: Fighter_update_def Let_def)

text \<open>
  C2. For every fighter and every dt, after \<^verbatim>\<open>Fighter.update(dt)\<close> the bottom edge
  \<open>y + 2 * height\<close> is at most 150, and it equals 150 exactly when \<open>onGround\<close> is true.
\<close>

theorem Fighter_update_ground_clamp:
  "py (Fighter_update f dt) + 2 * real (height (img (Fighter_update f dt))) \<le> 150 \<and>
   ((py (Fighter_update f dt) + 2 * real (height (img (Fighter_update f dt))) = 150)
      = onGround (Fighter_update f dt))"
  by (simp add: Fighter_update_def Let_def)

text \<open>
  C3. For every fighter and every dt (so for every dt \<open>\<ge> 0\<close>), gravity is added to the
  vertical velocity before the position is integrated: the new x is the old x plus
  \<open>vx * dt\<close>, and the y tested against the ground line is the old y plus
  \<open>(vy + 600 * dt) * dt\<close>. If that y puts the bottom edge at or below 150 the ground
  clamp sets the vertical velocity to 0; otherwise the vertical velocity is the old one
  plus \<open>600 * dt\<close> and y is the integrated y.
\<close>

theorem Fighter_update_semi_implicit:
  "px (Fighter_update f dt) = px f + vx f * dt \<and>
   (150 \<le> py f + (vy f + 600 * dt) * dt + real (height (img f)) * 2 \<longrightarrow>
      vy (Fighter_update f dt) = 0 \<and>
      py (Fighter_update f dt) = 150 - real (height (img f)) * 2) \<and>
   (py f + (vy f + 600 * dt) * dt + real (height (img f)) * 2 < 150 \<longrightarrow>
      vy (Fighter_update f dt) = vy f + 600 * dt \<and>
      py (Fighter_update f dt) = py f + (vy f + 600 * dt) * dt)"
  by (simp add: Fighter_update_def Let_def)

theorem Fighter_update_semi_implicit_witness:
  "(0::real) \<le> 1 / 10 \<and>
   px (Fighter_update ((new_Fighter sprite16 60 50)\<lparr>vx := 120\<rparr>) (1 / 10)) = 72 \<and>
   vy (Fighter_update ((new_Fighter sprite16 60 50)\<lparr>vx := 120\<rparr>) (1 / 10)) = 60 \<and>
   py (Fighter_update ((new_Fighter sprite16 60 50)\<lparr>vx := 120\<rparr>) (1 / 10)) = 56 \<and>
   vy (Fighter_update ((new_Fighter sprite16 60 117)\<lparr>vy := 40\<rparr>) (1 / 10)) = 0 \<and>
   py (Fighter_update ((new_Fighter sprite16 60 117)\<lparr>vy := 40\<rparr>) (1 / 10)) = 118"
  using Fighter_update_semi_implicit [of "(new_Fighter sprite16 60 50)\<lparr>vx := 120\<rparr>" "1 / 10"]
        Fighter_update_semi_implicit [of "(new_Fighter sprite16 60 117)\<lparr>vy := 40\<rparr>" "1 / 10"]
  by (simp add: new_Fighter_def sprite16_def)

section \<open>Theorems about Game.update\<close>

text \<open>
  C1, as the code has it. In a fight-phase update with both the left key and the right
  key held, the A test comes first and its branch is taken, so the \<^verbatim>\<open>else if\<close> on D is
  not reached: after the input mapping the player's horizontal velocity is -120 and the
  facing is left, and both are still so when the update returns.
\<close>

theorem Game_update_left_wins:
  assumes "state g = Fight" and "player g = Some p" and "cpu g = Some c"
    and "held (keys g) ''KeyA''" and "held (keys g) ''KeyD''"
  shows "vx (player_input (keys g) p) = - 120 \<and> facing (player_input (keys g) p) = - 1 \<and>
         (\<exists>g' p'. Game_update g dt rnd = Inr g' \<and> player g' = Some p' \<and>
                   vx p' = - 120 \<and> facing p' = - 1)"
  using assms
  by (simp add: Game_update_def player_input_def player_jump_def Fighter_update_def Let_def)

theorem Game_update_left_wins_witness:
  "state both_held = Fight \<and> held (keys both_held) ''KeyA'' \<and> held (keys both_held) ''KeyD'' \<and>
   vx (player_input (keys both_held) (new_Fighter sprite16 60 50)) = - 120 \<and>
   facing (player_input (keys both_held) (new_Fighter sprite16 60 50)) = - 1"
  using Game_update_left_wins [of both_held "new_Fighter sprite16 60 50"
          "(new_Fighter sprite16 220 50)\<lparr>facing := - 1\<rparr>" "1 / 10" "1 / 2"]
  by (simp add: both_held_def fight_start_def held_def)

text \<open>
  C1 as the claim words it (velocity +120 and facing right when both keys are held) fails
  on the game right after the confirm key with A and D down: the input mapping gives
  -120 and facing left, and the whole update returns the state shown.
\<close>

theorem both_held_right_wins_counterexample:
  "state both_held = Fight \<and> held (keys both_held) ''KeyA'' \<and> held (keys both_held) ''KeyD'' \<and>
   vx (player_input (keys both_held) (new_Fighter sprite16 60 50)) \<noteq> 120 \<and>
   facing (player_input (keys both_held) (new_Fighter sprite16 60 50)) \<noteq> 1 \<and>
   Game_update both_held (1 / 10) (1 / 2) =
     Inr (both_held\<lparr>
       player := Some \<lparr>img = sprite16, px = 48, py = 56, vx = - 120, vy = 60,
                       facing = - 1, onGround = False\<rparr>,
       cpu := Some \<lparr>img = sprite16, px = 212, py = 56, vx = - 80, vy = 60,
                    facing = - 1, onGround = False\<rparr>\<rparr>)"
  by (simp add: both_held_def fight_start_def held_def Game_update_def player_input_def
        player_jump_def cpu_ai_def cpu_jump_def Fighter_update_def new_Fighter_def
        sprite16_def Let_def)

text \<open>
  C5. In a fight-phase update, with dx the player's x after the player's own update
  minus the CPU's x: the CPU's horizontal velocity is 80 with the sign of dx if
  \<open>\<bar>dx\<bar> > 40\<close> and 0 otherwise, and the CPU faces right exactly when that velocity is
  \<open>\<ge> 0\<close>, left otherwise. The witness has the CPU at x = 0 and the player at 41, 39
  and -41.
\<close>

theorem Game_update_cpu_ai:
  assumes "state g = Fight" and "player g = Some p" and "cpu g = Some c"
  shows "\<exists>g' p' c'. Game_update g dt rnd = Inr g' \<and> player g' = Some p' \<and> cpu g' = Some c' \<and>
           p' = Fighter_update (player_jump (keys g) (player_input (keys g) p)) dt \<and>
           vx c' = (if \<bar>px p' - px c\<bar> > 40 then 80 * sgn (px p' - px c) else 0) \<and>
           (facing c' = 1) = (vx c' \<ge> 0) \<and> (facing c' = - 1) = (vx c' < 0)"
  using assms
  by (simp add: Game_update_def cpu_ai_def cpu_jump_def Fighter_update_keeps Let_def)

lemma facing_off_player:
  "Fighter_update (player_jump (keys (facing_off x0)) (player_input (keys (facing_off x0))
      (new_Fighter sprite16 x0 50))) (1 / 10) =
   \<lparr>img = sprite16, px = x0, py = 56, vx = 0, vy = 60, facing = 1, onGround = False\<rparr>"
  by (simp add: facing_off_def fight_start_def held_def player_input_def player_jump_def
        Fighter_update_def new_Fighter_def sprite16_def Let_def)

theorem Game_update_cpu_ai_witness:
  "state (facing_off 41) = Fight \<and>
   (\<exists>g' c'. Game_update (facing_off 41) (1 / 10) (1 / 2) = Inr g' \<and> cpu g' = Some c' \<and>
       vx c' = 80 \<and> facing c' = 1) \<and>
   (\<exists>g' c'. Game_update (facing_off 39) (1 / 10) (1 / 2) = Inr g' \<and> cpu g' = Some c' \<and>
       vx c' = 0 \<and> facing c' = 1) \<and>
   (\<exists>g' c'. Game_update (facing_off (- 41)) (1 / 10) (1 / 2) = Inr g' \<and> cpu g' = Some c' \<and>
       vx c' = - 80 \<and> facing c' = - 1)"
proof -
  have s: "state (facing_off x) = Fight"
    and p: "player (facing_off x) = Some (new_Fighter sprite16 x 50)"
    and c: "cpu (facing_off x) = Some (new_Fighter sprite16 0 50)" for x
    by (simp_all add: facing_off_def fight_start_def)
  have z: "px (new_Fighter sprite16 0 50) = 0"
    by (simp add: new_Fighter_def)
  from Game_update_cpu_ai [OF s p c, of 41 "1 / 10" "1 / 2"]
  have a: "\<exists>g' c'. Game_update (facing_off 41) (1 / 10) (1 / 2) = Inr g' \<and> cpu g' = Some c' \<and>
       vx c' = 80 \<and> facing c' = 1"
    unfolding facing_off_player z by auto
  from Game_update_cpu_ai [OF s p c, of 39 "1 / 10" "1 / 2"]
  have b: "\<exists>g' c'. Game_update (facing_off 39) (1 / 10) (1 / 2) = Inr g' \<and> cpu g' = Some c' \<and>
       vx c' = 0 \<and> facing c' = 1"
    unfolding facing_off_player z by auto
  from Game_update_cpu_ai [OF s p c, of "- 41" "1 / 10" "1 / 2"]
  have d: "\<exists>g' c'. Game_update (facing_off (- 41)) (1 / 10) (1 / 2) = Inr g' \<and> cpu g' = Some c' \<and>
       vx c' = - 80 \<and> facing c' = - 1"
    unfolding facing_off_player z by auto
  from s a b d show ?thesis by blast
qed

text \<open>
  C6. In a fight-phase update the vertical velocity the player enters its own update
  with is -250 if the jump key is held and the \<open>onGround\<close> flag left by the previous
  frame is true, and the old vertical velocity in every other case; with the key held
  and the flag false the update is the one without the jump rule.
\<close>

theorem Game_update_jump_gate:
  assumes "state g = Fight" and "player g = Some p" and "cpu g = Some c"
  shows "\<exists>g'. Game_update g dt rnd = Inr g' \<and>
           player g' = Some (Fighter_update
             ((player_input (keys g) p)
                \<lparr>vy := (if held (keys g) ''KeyW'' \<and> onGround p then - 250 else vy p)\<rparr>) dt) \<and>
           (held (keys g) ''KeyW'' \<and> \<not> onGround p \<longrightarrow>
              player g' = Some (Fighter_update (player_input (keys g) p) dt))"
  using assms
  by (simp add: Game_update_def player_jump_def player_input_def Let_def)

theorem Game_update_jump_gate_witness:
  "state (jump_pressed True) = Fight \<and> held (keys (jump_pressed True)) ''KeyW'' \<and>
   (\<exists>g'. Game_update (jump_pressed True) (1 / 10) (1 / 2) = Inr g' \<and>
      player g' = Some \<lparr>img = sprite16, px = 60, py = 99, vx = 0, vy = - 190,
                         facing = 1, onGround = False\<rparr>) \<and>
   (\<exists>g'. Game_update (jump_pressed False) (1 / 10) (1 / 2) = Inr g' \<and>
      player g' = Some \<lparr>img = sprite16, px = 60, py = 118, vx = 0, vy = 0,
                         facing = 1, onGround = True\<rparr>)"
proof -
  have s: "state (jump_pressed b) = Fight"
    and p: "player (jump_pressed b) = Some ((new_Fighter sprite16 60 118)\<lparr>onGround := b\<rparr>)"
    and c: "cpu (jump_pressed b) = Some ((new_Fighter sprite16 220 50)\<lparr>facing := - 1\<rparr>)"
    and k: "held (keys (jump_pressed b)) ''KeyW''"
    and i: "player_input (keys (jump_pressed b)) ((new_Fighter sprite16 60 118)\<lparr>onGround := b\<rparr>)
            = (new_Fighter sprite16 60 118)\<lparr>onGround := b\<rparr>" for b
    by (simp_all add: jump_pressed_def fight_start_def held_def player_input_def
          new_Fighter_def)
  have u: "Fighter_update ((new_Fighter sprite16 60 118)\<lparr>onGround := True, vy := - 250\<rparr>) (1 / 10)
           = \<lparr>img = sprite16, px = 60, py = 99, vx = 0, vy = - 190, facing = 1, onGround = False\<rparr>"
    by (simp add: Fighter_update_def new_Fighter_def sprite16_def Let_def)
  have v: "Fighter_update ((new_Fighter sprite16 60 118)\<lparr>onGround := False\<rparr>) (1 / 10)
           = \<lparr>img = sprite16, px = 60, py = 118, vx = 0, vy = 0, facing = 1, onGround = True\<rparr>"
    by (simp add: Fighter_update_def new_Fighter_def sprite16_def Let_def)
  from Game_update_jump_gate [OF s p c, of True "1 / 10" "1 / 2"]
  have a: "\<exists>g'. Game_update (jump_pressed True) (1 / 10) (1 / 2) = Inr g' \<and>
      player g' = Some \<lparr>img = sprite16, px = 60, py = 99, vx = 0, vy = - 190,
                         facing = 1, onGround = False\<rparr>"
    unfolding i using k [of True] u by (auto simp: new_Fighter_def)
  from Game_update_jump_gate [OF s p c, of False "1 / 10" "1 / 2"]
  have b: "\<exists>g'. Game_update (jump_pressed False) (1 / 10) (1 / 2) = Inr g' \<and>
      player g' = Some \<lparr>img = sprite16, px = 60, py = 118, vx = 0, vy = 0,
                         facing = 1, onGround = True\<rparr>"
    unfolding i using k [of False] v by (auto simp: new_Fighter_def)
  from s k a b show ?thesis by blast
qed

text \<open>
  C8. In the loading and the ready phase \<^verbatim>\<open>Game.update(dt)\<close> returns the game as it
  was, for every dt, every key state and every random number.
\<close>

theorem Game_update_idle:
  "state g \<noteq> Fight \<Longrightarrow> Game_update g dt rnd = Inr g"
  by (simp add: Game_update_def)

theorem Game_update_idle_witness:
  "state (game new_Game) \<noteq> Fight \<and> Game_update (game new_Game) (1 / 10) (1 / 2) = Inr (game new_Game) \<and>
   state (fight_start\<lparr>state := Vs\<rparr>) \<noteq> Fight \<and>
   Game_update (fight_start\<lparr>state := Vs\<rparr>) (1 / 10) (1 / 2) = Inr (fight_start\<lparr>state := Vs\<rparr>)"
  using Game_update_idle [of "game new_Game" "1 / 10" "1 / 2"]
        Game_update_idle [of "fight_start\<lparr>state := Vs\<rparr>" "1 / 10" "1 / 2"]
  by (simp add: new_Game_def)


section \<open>Theorems about the phases\<close>

text \<open>Neither \<^verbatim>\<open>update\<close> nor \<^verbatim>\<open>loop\<close> writes the phase, whether they return or throw.\<close>

lemma Game_update_state:
  "Game_update g dt rnd = Inl (e, g') \<Longrightarrow> state g' = state g"
  "Game_update g dt rnd = Inr g' \<Longrightarrow> state g' = state g"
  by (auto simp: Game_update_def Let_def split: if_splits option.splits)

lemma loop_state:
  "loop g t rnd = Inl (e, g') \<Longrightarrow> state g' = state g"
  "loop g t rnd = Inr g' \<Longrightarrow> state g' = state g"
  by (auto simp: loop_def Let_def dest: Game_update_state)

lemma step_Frame_state: "state (game (step s (Frame t rnd))) = state (game s)"
  by (auto simp: loop_state split: sum.splits prod.splits)

lemma step_Frame_pc: "pc (step s (Frame t rnd)) = pc s"
  by (auto split: sum.splits prod.splits)

lemma load_inv_new: "load_inv new_Game"
  by (simp add: load_inv_def new_Game_def)

lemma load_inv_step: "load_inv s \<Longrightarrow> load_inv (step s e)"
proof (cases e)
  case (Frame t rnd)
  assume "load_inv s"
  then show ?thesis
    unfolding Frame load_inv_def step_Frame_state step_Frame_pc .
qed (auto simp: load_inv_def keydown_def keyup_def loadAssets_resume_def loadAssets_reject_def
       Let_def split: load_pc.splits)

lemma load_inv_run: "load_inv s \<Longrightarrow> load_inv (run s es)"
  by (induction es arbitrary: s) (simp_all add: load_inv_step)

lemma step_phase:
  assumes "load_inv s"
  shows "state (game (step s e)) = state (game s) \<or>
         (state (game s) = Loading \<and> state (game (step s e)) = Vs \<and> (\<exists>i. e = ImageLoaded i)) \<or>
         (state (game s) = Vs \<and> state (game (step s e)) = Fight \<and> e = KeyDown ''Space'')"
proof (cases e)
  case (Frame t rnd)
  then show ?thesis by (simp add: step_Frame_state del: step.simps)
qed (use assms in \<open>auto simp: load_inv_def keydown_def keyup_def loadAssets_resume_def
       loadAssets_reject_def Let_def split: load_pc.splits\<close>)

lemma run_append: "run s (es @ es') = run (run s es) es'"
  by (induction es arbitrary: s) simp_all

lemma rank_step: "load_inv s \<Longrightarrow> phase_rank (state (game s)) \<le> phase_rank (state (game (step s e)))"
  using step_phase [of s e] by (auto simp: phase_rank_def)

lemma rank_run: "load_inv s \<Longrightarrow> phase_rank (state (game s)) \<le> phase_rank (state (game (run s es)))"
proof (induction es arbitrary: s)
  case Nil
  then show ?case by simp
next
  case (Cons e es)
  have "phase_rank (state (game s)) \<le> phase_rank (state (game (step s e)))"
    using Cons.prems by (rule rank_step)
  also have "\<dots> \<le> phase_rank (state (game (run (step s e) es)))"
    using Cons.prems by (intro Cons.IH load_inv_step)
  finally show ?case by simp
qed

text \<open>
  C4. Along every sequence of key events, image loads, load failures and frames from
  \<^verbatim>\<open>new Game()\<close>, one more event either leaves the phase as it is, or takes it from
  loading to ready (and then the event is an image load), or takes it from ready to fight
  (and then the event is the confirm key going down). So the phase never moves backward
  and never goes from loading to fight in one step; over any further events the rank of
  the phase does not decrease.
\<close>

theorem phase_monotone:
  "(state (game (step (run new_Game es) e)) = state (game (run new_Game es)) \<or>
    (state (game (run new_Game es)) = Loading \<and>
       state (game (step (run new_Game es) e)) = Vs \<and> (\<exists>i. e = ImageLoaded i)) \<or>
    (state (game (run new_Game es)) = Vs \<and>
       state (game (step (run new_Game es) e)) = Fight \<and> e = KeyDown ''Space'')) \<and>
   phase_rank (state (game (run new_Game es)))
     \<le> phase_rank (state (game (run new_Game (es @ es'))))"
proof -
  have i: "load_inv (run new_Game es)"
    by (rule load_inv_run [OF load_inv_new])
  show ?thesis
    using step_phase [OF i, of e] rank_run [OF i, of es'] by (simp only: run_append) 
qed


theorem phase_monotone_witness:
  "state (game (run new_Game [KeyDown ''Space''])) = Loading \<and>
   state (game (step (run new_Game [KeyDown ''Space'']) (ImageLoaded sprite16))) = Loading \<and>
   state (game (run new_Game [ImageLoaded sprite16, ImageLoaded sprite16])) = Vs \<and>
   state (game (step (run new_Game [ImageLoaded sprite16, ImageLoaded sprite16])
     (KeyDown ''Space''))) = Fight \<and>
   phase_rank (state (game (run new_Game [ImageLoaded sprite16, ImageLoaded sprite16])))
     \<le> phase_rank (state (game (run new_Game
           ([ImageLoaded sprite16, ImageLoaded sprite16] @ [KeyDown ''Space'', Frame 16 (1 / 2)]))))"
  using phase_monotone [of "[KeyDown ''Space'']" "ImageLoaded sprite16" "[]"]
        phase_monotone [of "[ImageLoaded sprite16, ImageLoaded sprite16]" "KeyDown ''Space''"
          "[KeyDown ''Space'', Frame 16 (1 / 2)]"]
  by (simp add: new_Game_def keydown_def loadAssets_resume_def Let_def)

section \<open>Theorems about loadAssets\<close>

lemma player_input_img: "img (player_input ks p) = img p"
  by (simp add: player_input_def Let_def)

lemma player_jump_img: "img (player_jump ks p) = img p"
  by (simp add: player_jump_def)

lemma cpu_ai_img: "img (cpu_ai p c) = img c"
  by (simp add: cpu_ai_def Let_def)

lemma cpu_jump_img: "img (cpu_jump rnd c) = img c"
  by (simp add: cpu_jump_def)

lemma Game_update_fighters:
  assumes "player g = Some p" and "cpu g = Some c"
  shows "\<exists>g' p' c'. Game_update g dt rnd = Inr g' \<and> player g' = Some p' \<and> cpu g' = Some c' \<and>
           img p' = img p \<and> img c' = img c \<and> fighterImg g' = fighterImg g"
  using assms
  by (simp add: Game_update_def Let_def Fighter_update_keeps player_input_img player_jump_img
        cpu_ai_img cpu_jump_img)

lemma loop_fighters:
  assumes "player g = Some p" and "cpu g = Some c"
  shows "\<exists>g' p' c'. loop g t rnd = Inr g' \<and> player g' = Some p' \<and> cpu g' = Some c' \<and>
           img p' = img p \<and> img c' = img c \<and> fighterImg g' = fighterImg g"
  using Game_update_fighters [of "g\<lparr>lastTime := t\<rparr>" p c "(t - lastTime g) / 1000" rnd] assms
  by (simp add: loop_def Let_def)

lemma fighters_inv_new: "fighters_inv new_Game"
  by (simp add: fighters_inv_def new_Game_def)

lemma fighters_inv_step: "fighters_inv s \<Longrightarrow> fighters_inv (step s e)"
proof (cases e)
  case (Frame t rnd)
  assume inv: "fighters_inv s"
  show ?thesis
  proof (cases "scheduled s \<and> pc s = LoadDone")
    case True
    with inv obtain p c where pc: "player (game s) = Some p" "cpu (game s) = Some c"
      "img p = img c" "fighterImg (game s) = Some (img p)"
      by (auto simp: fighters_inv_def)
    from loop_fighters [OF pc(1,2), of t rnd] obtain g' p' c'
      where "loop (game s) t rnd = Inr g'" "player g' = Some p'" "cpu g' = Some c'"
        "img p' = img p" "img c' = img c" "fighterImg g' = fighterImg (game s)"
      by blast
    with pc True show ?thesis
      by (simp add: Frame fighters_inv_def)
  next
    case False
    with inv show ?thesis
      by (auto simp: Frame fighters_inv_def split: sum.splits prod.splits)
  qed
qed (auto simp: fighters_inv_def keydown_def keyup_def loadAssets_resume_def
       loadAssets_reject_def new_Fighter_def Let_def split: load_pc.splits)

lemma fighters_inv_run: "fighters_inv s \<Longrightarrow> fighters_inv (run s es)"
  by (induction es arbitrary: s) (simp_all add: fighters_inv_step)

lemma step_pc_done: "pc s = LoadDone \<Longrightarrow> pc (step s e) = LoadDone"
  by (cases e) (auto simp: loadAssets_resume_def loadAssets_reject_def
        split: sum.splits prod.splits)

lemma run_pc_done: "pc s = LoadDone \<Longrightarrow> pc (run s es) = LoadDone"
  by (induction es arbitrary: s) (simp_all add: step_pc_done)

lemma step_pc_cases:
  "pc (step s e) = LoadDone \<Longrightarrow> pc s \<noteq> LoadDone \<Longrightarrow> pc s = AwaitSprite \<and> (\<exists>i. e = ImageLoaded i)"
  by (cases e) (auto simp: loadAssets_resume_def loadAssets_reject_def
        split: sum.splits prod.splits load_pc.splits if_splits)

lemma step_ready_iff:
  assumes "load_inv s"
  shows "(state (game s) = Loading \<and> state (game (step s e)) = Vs)
           = (pc s = AwaitSprite \<and> (\<exists>i. e = ImageLoaded i))"
proof
  assume a: "state (game s) = Loading \<and> state (game (step s e)) = Vs"
  have "load_inv (step s e)" using assms by (rule load_inv_step)
  with a have "pc (step s e) = LoadDone" by (simp add: load_inv_def)
  moreover from a assms have "pc s \<noteq> LoadDone" by (simp add: load_inv_def)
  ultimately show "pc s = AwaitSprite \<and> (\<exists>i. e = ImageLoaded i)" by (rule step_pc_cases)
next
  assume "pc s = AwaitSprite \<and> (\<exists>i. e = ImageLoaded i)"
  with assms show "state (game s) = Loading \<and> state (game (step s e)) = Vs"
    by (auto simp: load_inv_def loadAssets_resume_def Let_def)
qed

lemma step_ready_pc:
  assumes "load_inv s"
  shows "(state (game s) = Loading \<and> state (game (step s e)) = Vs)
           = (pc s \<noteq> LoadDone \<and> pc (step s e) = LoadDone)"
  unfolding step_ready_iff [OF assms]
  using step_pc_cases [of s e] by (auto simp: loadAssets_resume_def)

lemma ready_transitions_count:
  "load_inv s \<Longrightarrow>
   ready_transitions s es = (if pc s \<noteq> LoadDone \<and> pc (run s es) = LoadDone then 1 else 0)"
proof (induction es arbitrary: s)
  case Nil
  then show ?case by simp
next
  case (Cons e es)
  have i: "load_inv (step s e)" using Cons.prems by (rule load_inv_step)
  show ?case
  proof (cases "pc (step s e) = LoadDone")
    case True
    then show ?thesis
      using Cons.IH [OF i] step_ready_pc [OF Cons.prems, of e] run_pc_done [of "step s e" es]
      by simp
  next
    case False
    then have "pc s \<noteq> LoadDone" using step_pc_done [of s e] by blast
    with False show ?thesis
      using Cons.IH [OF i] step_ready_pc [OF Cons.prems, of e] by simp
  qed
qed

text \<open>
  C9. For the session \<open>s\<close> reached by any events from \<^verbatim>\<open>new Game()\<close>: the run made
  exactly one loading-to-ready step if \<^verbatim>\<open>loadAssets\<close> has run to its end (both images
  loaded) and none otherwise; a step from \<open>s\<close> is such a transition exactly when it
  resolves the sprite load; that step stores the sprite, creates the player at (60, 50)
  facing right and the CPU at (220, 50) facing left, both on that sprite, and sets the
  phase to ready; and whenever the phase is past loading both fighters exist and share
  the loaded sprite.
\<close>

theorem loadAssets_ready_once:
  assumes "s = run new_Game es"
  shows "ready_transitions new_Game es = (if pc s = LoadDone then 1 else 0) \<and>
         ((state (game s) = Loading \<and> state (game (step s e)) = Vs)
            = (pc s = AwaitSprite \<and> (\<exists>i. e = ImageLoaded i))) \<and>
         (pc s = AwaitSprite \<longrightarrow>
            game (step s (ImageLoaded i)) =
              (game s)\<lparr>fighterImg := Some i,
                 player := Some \<lparr>img = i, px = 60, py = 50, vx = 0, vy = 0,
                                 facing = 1, onGround = False\<rparr>,
                 cpu := Some \<lparr>img = i, px = 220, py = 50, vx = 0, vy = 0,
                              facing = - 1, onGround = False\<rparr>,
                 state := Vs\<rparr>) \<and>
         (state (game s) \<noteq> Loading \<longrightarrow>
            (\<exists>p c. player (game s) = Some p \<and> cpu (game s) = Some c \<and> img p = img c \<and>
                   fighterImg (game s) = Some (img p)))"
proof -
  have i: "load_inv s" unfolding assms by (rule load_inv_run [OF load_inv_new])
  have f: "fighters_inv s" unfolding assms by (rule fighters_inv_run [OF fighters_inv_new])
  have 1: "ready_transitions new_Game es = (if pc s = LoadDone then 1 else 0)"
    using ready_transitions_count [OF load_inv_new, of es]
    by (simp add: assms) (simp add: new_Game_def)
  have 2: "(state (game s) = Loading \<and> state (game (step s e)) = Vs)
            = (pc s = AwaitSprite \<and> (\<exists>i. e = ImageLoaded i))"
    by (rule step_ready_iff [OF i])
  have 3: "pc s = AwaitSprite \<longrightarrow>
            game (step s (ImageLoaded i)) =
              (game s)\<lparr>fighterImg := Some i,
                 player := Some \<lparr>img = i, px = 60, py = 50, vx = 0, vy = 0,
                                 facing = 1, onGround = False\<rparr>,
                 cpu := Some \<lparr>img = i, px = 220, py = 50, vx = 0, vy = 0,
                              facing = - 1, onGround = False\<rparr>,
                 state := Vs\<rparr>"
    by (simp add: loadAssets_resume_def new_Fighter_def Let_def)
  have 4: "state (game s) \<noteq> Loading \<longrightarrow>
            (\<exists>p c. player (game s) = Some p \<and> cpu (game s) = Some c \<and> img p = img c \<and>
                   fighterImg (game s) = Some (img p))"
    using i f by (simp add: load_inv_def fighters_inv_def)
  from 1 2 3 4 show ?thesis by blast
qed

theorem loadAssets_ready_once_witness:
  "pc (run new_Game [KeyDown ''KeyD'', ImageLoaded marketSky]) = AwaitSprite \<and>
   ready_transitions new_Game [KeyDown ''KeyD'', ImageLoaded marketSky] = 0 \<and>
   game (step (run new_Game [KeyDown ''KeyD'', ImageLoaded marketSky]) (ImageLoaded sprite16)) =
     \<lparr>bg = Some marketSky, fighterImg = Some sprite16,
      player = Some \<lparr>img = sprite16, px = 60, py = 50, vx = 0, vy = 0,
                      facing = 1, onGround = False\<rparr>,
      cpu = Some \<lparr>img = sprite16, px = 220, py = 50, vx = 0, vy = 0,
                   facing = - 1, onGround = False\<rparr>,
      keys = [''KeyD'' \<mapsto> True], state = Vs, lastTime = 0\<rparr> \<and>
   pc (run new_Game [ImageLoaded marketSky, ImageLoaded sprite16, KeyDown ''Space'']) = LoadDone \<and>
   ready_transitions new_Game [ImageLoaded marketSky, ImageLoaded sprite16, KeyDown ''Space''] = 1"
  using loadAssets_ready_once [of "run new_Game [KeyDown ''KeyD'', ImageLoaded marketSky]"
          "[KeyDown ''KeyD'', ImageLoaded marketSky]" "ImageLoaded sprite16" sprite16]
        loadAssets_ready_once
          [of "run new_Game [ImageLoaded marketSky, ImageLoaded sprite16, KeyDown ''Space'']"
          "[ImageLoaded marketSky, ImageLoaded sprite16, KeyDown ''Space'']"
          "KeyDown ''Space''" sprite16]
  by (simp add: new_Game_def keydown_def loadAssets_resume_def Let_def)

section \<open>Theorems about Fighter.draw\<close>

text \<open>
  C7. For every fighter and every context, \<^verbatim>\<open>draw\<close> with facing right puts the left
  edge of the sprite at the fighter's x and the right edge at x plus twice the sprite
  width; \<^verbatim>\<open>draw\<close> with facing left puts the left edge at x plus twice the width and
  the right edge at x. Both cover the same horizontal interval, the left-facing one
  flipped within it, at the same height; the transformation and the save stack are as
  before the call.
\<close>

theorem Fighter_draw_mirror:
  "drawn (Fighter_draw (f\<lparr>facing := 1\<rparr>) c) = drawn c @
     [\<lparr>source = img f,
       left_at = scale_x (ctm c) * px f + shift_x (ctm c),
       right_at = scale_x (ctm c) * (px f + 2 * real (width (img f))) + shift_x (ctm c),
       top_at = scale_y (ctm c) * py f + shift_y (ctm c),
       bottom_at = scale_y (ctm c) * (py f + 2 * real (height (img f))) + shift_y (ctm c)\<rparr>] \<and>
   drawn (Fighter_draw (f\<lparr>facing := - 1\<rparr>) c) = drawn c @
     [\<lparr>source = img f,
       left_at = scale_x (ctm c) * (px f + 2 * real (width (img f))) + shift_x (ctm c),
       right_at = scale_x (ctm c) * px f + shift_x (ctm c),
       top_at = scale_y (ctm c) * py f + shift_y (ctm c),
       bottom_at = scale_y (ctm c) * (py f + 2 * real (height (img f))) + shift_y (ctm c)\<rparr>] \<and>
   ctm (Fighter_draw f c) = ctm c \<and> saved (Fighter_draw f c) = saved c"
  by (simp add: Fighter_draw_def ctx_save_def ctx_scale_def ctx_drawImage_def ctx_restore_def
        Let_def algebra_simps)

theorem Fighter_draw_mirror_witness:
  "drawn (Fighter_draw ((new_Fighter sprite16 60 50)\<lparr>facing := 1\<rparr>) blank_canvas) =
     [\<lparr>source = sprite16, left_at = 60, right_at = 92, top_at = 50, bottom_at = 82\<rparr>] \<and>
   drawn (Fighter_draw ((new_Fighter sprite16 60 50)\<lparr>facing := - 1\<rparr>) blank_canvas) =
     [\<lparr>source = sprite16, left_at = 92, right_at = 60, top_at = 50, bottom_at = 82\<rparr>]"
  using Fighter_draw_mirror [of "new_Fighter sprite16 60 50" blank_canvas]
  by (simp add: new_Fighter_def sprite16_def blank_canvas_def)

end
